theory Spec2Isabelle
  imports Complex_Main "HOL-Library.Word"
begin

section \<open>Values shared by the backend modules\<close>

text \<open>
  The backend is Python. Every exception the code can meet is a value of \<open>error\<close>, and a
  call that may raise returns \<open>error + 'a\<close> with \<open>Inl\<close> for the raised exception.
\<close>

datatype error =
    TypeError
  | ValueError
  | IndexError
  | RuntimeError
  | RecursionError
  | AttributeError
  | KeyError
  | cv2_error
  | binascii_Error
  | UnidentifiedImageError
  | JSONDecodeError
  | WebSocketDisconnect
  | OtherException

text \<open>Sequencing of calls that may raise: the first exception leaves the block.\<close>

definition and_then :: "error + 'a \<Rightarrow> ('a \<Rightarrow> error + 'b) \<Rightarrow> error + 'b" where
  "and_then m f = (case m of Inl e \<Rightarrow> Inl e | Inr x \<Rightarrow> f x)"

type_synonym u8 = "8 word"

text \<open>
  A numpy array of dtype uint8: its shape and its samples in C order (last axis fastest).
\<close>

record ndarray =
  shape :: "nat list"
  data :: "u8 list"

text \<open>
  A PIL image of one of the 8-bit modes the backend produces or reads: the mode, the size
  (width, height) and the samples, row by row, bands interleaved.
\<close>

datatype pil_mode = L | LA | RGB | RGBA

record pil_image =
  mode :: pil_mode
  width :: nat
  height :: nat
  pixels :: "u8 list"

fun bands :: "pil_mode \<Rightarrow> nat" where
  "bands L = 1"
| "bands LA = 2"
| "bands RGB = 3"
| "bands RGBA = 4"

text \<open>
  The image codecs and the interpolation kernels are library code. They are parameters of
  the model: \<open>png_save\<close> is \<^verbatim>\<open>pil_image.save(buffer, format='PNG')\<close> followed by
  \<^verbatim>\<open>buffer.getvalue()\<close>, \<open>image_open\<close> is \<^verbatim>\<open>Image.open(io.BytesIO(b))\<close>,
  \<open>b64encode\<close> is \<^verbatim>\<open>base64.b64encode(b).decode()\<close>, \<open>b64decode\<close> is
  \<^verbatim>\<open>base64.b64decode(s)\<close>. \<open>pil_resample\<close> and \<open>cv2_resample\<close> give the samples that
  \<^verbatim>\<open>transforms.Resize\<close> and \<^verbatim>\<open>cv2.resize\<close> compute for a target (height, width); the
  shapes of their results are fixed by the model below, not by these parameters.
  \<open>luma\<close> is the gray value \<^verbatim>\<open>cv2.COLOR_BGR2GRAY\<close> gives one pixel, and
  \<open>weighted alpha beta gamma x y\<close> is the sample \<^verbatim>\<open>cv2.addWeighted\<close> computes in float
  arithmetic from the samples \<open>x\<close> and \<open>y\<close>.

  The scores and probabilities of the postprocessor are 32-bit floats. A float is the real
  number it stands for; \<open>torch_sigmoid\<close> is the float \<^verbatim>\<open>torch.sigmoid\<close> returns for a
  score, and \<open>float32\<close> rounds a real number to the nearest float, so that the float
  product of \<open>p\<close> and 255 is \<open>float32 (p * 255)\<close>.
\<close>

record libs =
  png_save :: "pil_image \<Rightarrow> u8 list"
  image_open :: "u8 list \<Rightarrow> error + pil_image"
  b64encode :: "u8 list \<Rightarrow> string"
  b64decode :: "string \<Rightarrow> error + u8 list"
  pil_resample :: "nat \<Rightarrow> nat \<Rightarrow> pil_image \<Rightarrow> u8 list"
  cv2_resample :: "nat \<Rightarrow> nat \<Rightarrow> ndarray \<Rightarrow> u8 list"
  luma :: "u8 \<Rightarrow> u8 \<Rightarrow> u8 \<Rightarrow> u8"
  weighted :: "real \<Rightarrow> real \<Rightarrow> real \<Rightarrow> u8 \<Rightarrow> u8 \<Rightarrow> u8"
  torch_sigmoid :: "real \<Rightarrow> real"
  float32 :: "real \<Rightarrow> real"

section \<open>utils.py\<close>

text \<open>
  \<^verbatim>\<open>cv2.cvtColor(a, cv2.COLOR_BGR2RGB)\<close> and \<^verbatim>\<open>cv2.COLOR_RGB2BGR\<close> are the same
  conversion: the source must be a non-empty array with 3 or 4 channels, the result has 3
  channels, the first and third sample of every pixel exchanged (a fourth is dropped).
\<close>

fun swap_rb3 :: "u8 list \<Rightarrow> u8 list" where
  "swap_rb3 (a # b # c # xs) = c # b # a # swap_rb3 xs"
| "swap_rb3 xs = []"

fun swap_rb4 :: "u8 list \<Rightarrow> u8 list" where
  "swap_rb4 (a # b # c # d # xs) = c # b # a # swap_rb4 xs"
| "swap_rb4 xs = []"

definition cvtColor_swap :: "ndarray \<Rightarrow> error + ndarray" where
  "cvtColor_swap a =
     (case shape a of
        [h, w, c] \<Rightarrow>
          if h = 0 \<or> w = 0 then Inl cv2_error
          else if c = 3 then Inr \<lparr>shape = [h, w, 3], data = swap_rb3 (data a)\<rparr>
          else if c = 4 then Inr \<lparr>shape = [h, w, 3], data = swap_rb4 (data a)\<rparr>
          else Inl cv2_error
      | _ \<Rightarrow> Inl cv2_error)"

text \<open>
  \<^verbatim>\<open>Image.fromarray(a)\<close> for a uint8 array: the mode is looked up from the axes after the
  first two (none: L, 2: LA, 3: RGB, 4: RGBA, anything else raises TypeError); the size is
  (shape[1], shape[0]).
\<close>

definition fromarray :: "ndarray \<Rightarrow> error + pil_image" where
  "fromarray a =
     (case shape a of
        [] \<Rightarrow> Inl IndexError
      | [h] \<Rightarrow> Inr \<lparr>mode = L, width = 1, height = h, pixels = data a\<rparr>
      | [h, w] \<Rightarrow> Inr \<lparr>mode = L, width = w, height = h, pixels = data a\<rparr>
      | [h, w, c] \<Rightarrow>
          if c = 2 then Inr \<lparr>mode = LA, width = w, height = h, pixels = data a\<rparr>
          else if c = 3 then Inr \<lparr>mode = RGB, width = w, height = h, pixels = data a\<rparr>
          else if c = 4 then Inr \<lparr>mode = RGBA, width = w, height = h, pixels = data a\<rparr>
          else Inl TypeError
      | _ \<Rightarrow> Inl TypeError)"

text \<open>\<^verbatim>\<open>np.array(pil_image)\<close>: (height, width) for mode L, (height, width, bands) otherwise.\<close>

definition np_array :: "pil_image \<Rightarrow> ndarray" where
  "np_array p =
     (if mode p = L then \<lparr>shape = [height p, width p], data = pixels p\<rparr>
      else \<lparr>shape = [height p, width p, bands (mode p)], data = pixels p\<rparr>)"

definition encode_image_to_base64 :: "libs \<Rightarrow> ndarray \<Rightarrow> error + string" where
  "encode_image_to_base64 lib img =
     and_then
       (if length (shape img) = 3
        then and_then (cvtColor_swap img) fromarray
        else fromarray img)
       (\<lambda>pil_image. Inr (b64encode lib (png_save lib pil_image)))"

definition decode_base64_to_image :: "libs \<Rightarrow> string \<Rightarrow> error + ndarray" where
  "decode_base64_to_image lib base64_string =
     and_then (b64decode lib base64_string) (\<lambda>img_data.
     and_then (image_open lib img_data) (\<lambda>pil_image.
       let image_np = np_array pil_image in
       if length (shape image_np) = 3 \<and> shape image_np ! 2 = 3
       then cvtColor_swap image_np
       else Inr image_np))"

text \<open>The codec is lossless when decoding what was encoded gives back the same value.\<close>

definition lossless :: "libs \<Rightarrow> bool" where
  "lossless lib \<longleftrightarrow>
     (\<forall>p. image_open lib (png_save lib p) = Inr p) \<and>
     (\<forall>b. b64decode lib (b64encode lib b) = Inr b)"

text \<open>
  An array is well formed when it holds as many samples as its shape says, and an image
  is a well-formed array with two axes, or with three and three channels, that is not empty.
\<close>

definition well_formed :: "ndarray \<Rightarrow> bool" where
  "well_formed a \<longleftrightarrow> length (data a) = prod_list (shape a)"

definition gray_image :: "ndarray \<Rightarrow> bool" where
  "gray_image a \<longleftrightarrow> well_formed a \<and> (\<exists>h w. shape a = [h, w] \<and> 0 < h \<and> 0 < w)"

definition color_image :: "ndarray \<Rightarrow> bool" where
  "color_image a \<longleftrightarrow> well_formed a \<and> (\<exists>h w. shape a = [h, w, 3] \<and> 0 < h \<and> 0 < w)"

section \<open>model_service.py\<close>

text \<open>
  A torch tensor of 32-bit floats. A float is the real number it stands for, and the
  result of a float operation is the exact result rounded by \<open>float32\<close>.
\<close>

record tensor =
  tshape :: "nat list"
  tdata :: "real list"

text \<open>
  The network is a callable from the input tensor to the raw scores; its class is not part of
  the modelled files, so a service holds it as an opaque function that may raise.
\<close>

type_synonym network = "tensor \<Rightarrow> error + tensor"

record model_service =
  model :: "network option"
  image_height :: nat
  image_width :: nat

text \<open>
  What \<^verbatim>\<open>_load_model\<close> meets outside the module: the result of constructing
  \<^verbatim>\<open>UNET(in_channels=3, out_channels=1).to(device)\<close>, whether the checkpoint file exists,
  and the network that \<^verbatim>\<open>torch.load\<close> and \<^verbatim>\<open>load_checkpoint\<close> leave in place (or the
  exception they raise).
\<close>

record loader =
  new_unet :: "error + network"
  checkpoint_exists :: bool
  load_checkpoint :: "network \<Rightarrow> error + network"

definition load_model :: "loader \<Rightarrow> model_service \<Rightarrow> error + model_service" where
  "load_model ld self =
     and_then (new_unet ld) (\<lambda>net.
       if checkpoint_exists ld
       then and_then (load_checkpoint ld net) (\<lambda>net'. Inr (self\<lparr>model := Some net'\<rparr>))
       else Inr (self\<lparr>model := Some net\<rparr>))"

text \<open>
  \<^verbatim>\<open>ModelService.__init__\<close>: the fields are set, then the network is loaded; an exception
  of the loader leaves the constructor, and no service object exists then.
\<close>

definition ModelService :: "loader \<Rightarrow> error + model_service" where
  "ModelService ld =
     load_model ld \<lparr>model = None, image_height = 560, image_width = 690\<rparr>"

subsection \<open>The transform pipeline\<close>

text \<open>\<^verbatim>\<open>transforms.Resize((h, w))\<close> on a PIL image keeps the mode and sets the size.\<close>

definition Resize :: "libs \<Rightarrow> nat \<Rightarrow> nat \<Rightarrow> pil_image \<Rightarrow> pil_image" where
  "Resize lib h w p =
     \<lparr>mode = mode p, width = w, height = h, pixels = pil_resample lib h w p\<rparr>"

text \<open>
  \<^verbatim>\<open>transforms.ToTensor()\<close>: a (bands, height, width) tensor, each sample divided by 255,
  the samples of one band together.
\<close>

definition hwc_to_chw :: "nat \<Rightarrow> 'a list \<Rightarrow> 'a list" where
  "hwc_to_chw c xs =
     concat (map (\<lambda>k. map (\<lambda>i. xs ! (i * c + k)) [0..<length xs div c]) [0..<c])"

definition ToTensor :: "libs \<Rightarrow> pil_image \<Rightarrow> tensor" where
  "ToTensor lib p =
     \<lparr>tshape = [bands (mode p), height p, width p],
      tdata = map (\<lambda>x. float32 lib (real (unat x) / 255))
                (hwc_to_chw (bands (mode p)) (pixels p))\<rparr>"

text \<open>
  \<^verbatim>\<open>transforms.Normalize(mean, std)\<close> subtracts and divides in place, the statistics
  viewed as (len, 1, 1): a tensor with fewer than three axes raises ValueError, and one whose
  channel count is not the number of statistics raises RuntimeError (the in-place result
  cannot take the broadcast shape).
\<close>

definition Normalize :: "libs \<Rightarrow> real list \<Rightarrow> real list \<Rightarrow> tensor \<Rightarrow> error + tensor" where
  "Normalize lib mean std t =
     (case tshape t of
        [c, h, w] \<Rightarrow>
          if c = length mean
          then Inr \<lparr>tshape = [c, h, w],
                    tdata = map (\<lambda>i. float32 lib
                                    (float32 lib (tdata t ! i - mean ! (i div (h * w)))
                                       / std ! (i div (h * w))))
                              [0..<length (tdata t)]\<rparr>
          else Inl RuntimeError
      | _ \<Rightarrow> Inl ValueError)"

definition transform :: "libs \<Rightarrow> model_service \<Rightarrow> pil_image \<Rightarrow> error + tensor" where
  "transform lib self p =
     Normalize lib [0, 0, 0] [1, 1, 1]
       (ToTensor lib (Resize lib (image_height self) (image_width self) p))"

definition unsqueeze0 :: "tensor \<Rightarrow> tensor" where
  "unsqueeze0 t = t\<lparr>tshape := 1 # tshape t\<rparr>"

definition preprocess_image :: "libs \<Rightarrow> model_service \<Rightarrow> ndarray \<Rightarrow> error + tensor" where
  "preprocess_image lib self img =
     and_then
       (if length (shape img) = 3 \<and> shape img ! 2 = 3 then cvtColor_swap img else Inr img)
       (\<lambda>image_rgb.
     and_then (fromarray image_rgb) (\<lambda>pil_image.
     and_then (transform lib self pil_image) (\<lambda>t.
       Inr (unsqueeze0 t))))"

subsection \<open>Postprocessing\<close>

text \<open>
  What the model supposes of the float arithmetic: the sigmoid of a score is a float
  between 0 and 1, both ends included (the float nearest to the probability of a large
  score is 1.0), and rounding to the nearest float is monotone and keeps 0 and 255.
\<close>

definition float_model :: "libs \<Rightarrow> bool" where
  "float_model lib \<longleftrightarrow>
     (\<forall>s. 0 \<le> torch_sigmoid lib s \<and> torch_sigmoid lib s \<le> 1) \<and>
     (\<forall>x y. x \<le> y \<longrightarrow> float32 lib x \<le> float32 lib y) \<and>
     float32 lib 0 = 0 \<and> float32 lib 255 = 255"

text \<open>\<^verbatim>\<open>.squeeze()\<close> removes every axis of length one; the samples stay as they are.\<close>

definition squeeze :: "nat list \<Rightarrow> nat list" where
  "squeeze sh = filter (\<lambda>n. n \<noteq> 1) sh"

text \<open>
  \<^verbatim>\<open>.astype(np.uint8)\<close> of a float: the fraction is dropped (towards zero) and the integer
  is taken modulo 256.
\<close>

definition trunc :: "real \<Rightarrow> int" where
  "trunc x = (if 0 \<le> x then \<lfloor>x\<rfloor> else \<lceil>x\<rceil>)"

definition astype_uint8 :: "real \<Rightarrow> u8" where
  "astype_uint8 x = word_of_int (trunc x)"

text \<open>
  The value one score gets in the mask: \<^verbatim>\<open>(torch.sigmoid(s) * 255).astype(np.uint8)\<close>,
  the product being the float product.
\<close>

definition mask_value :: "libs \<Rightarrow> real \<Rightarrow> u8" where
  "mask_value lib s = astype_uint8 (float32 lib (torch_sigmoid lib s * 255))"

text \<open>
  \<^verbatim>\<open>cv2.resize(src, (w, h))\<close>: the source must not be empty and the target size must be
  positive; the result has h rows and w columns, and keeps a channel axis longer than one.
\<close>

definition cv2_resize :: "libs \<Rightarrow> ndarray \<Rightarrow> nat \<Rightarrow> nat \<Rightarrow> error + ndarray" where
  "cv2_resize lib src w h =
     (if prod_list (shape src) = 0 \<or> w = 0 \<or> h = 0 then Inl cv2_error
      else case shape src of
        [n] \<Rightarrow> Inr \<lparr>shape = [h, w], data = cv2_resample lib h w src\<rparr>
      | [r, c] \<Rightarrow> Inr \<lparr>shape = [h, w], data = cv2_resample lib h w src\<rparr>
      | [r, c, ch] \<Rightarrow>
          if ch = 1 then Inr \<lparr>shape = [h, w], data = cv2_resample lib h w src\<rparr>
          else if ch \<le> 512 then Inr \<lparr>shape = [h, w, ch], data = cv2_resample lib h w src\<rparr>
          else Inl cv2_error
      | _ \<Rightarrow> Inl cv2_error)"

definition postprocess_output :: "libs \<Rightarrow> tensor \<Rightarrow> nat list \<Rightarrow> error + ndarray" where
  "postprocess_output lib output original_shape =
     (let mask = \<lparr>shape = squeeze (tshape output), data = map (mask_value lib) (tdata output)\<rparr> in
      if take 2 original_shape \<noteq> shape mask
      then (if length original_shape < 2 then Inl IndexError
            else cv2_resize lib mask (original_shape ! 1) (original_shape ! 0))
      else Inr mask)"

subsection \<open>The overlay\<close>

text \<open>
  \<^verbatim>\<open>cv2.cvtColor(mask, cv2.COLOR_BGR2GRAY)\<close>: a non-empty source with 3 or 4 channels
  gives a two-axis array, one gray value for each pixel.
\<close>

fun gray3 :: "libs \<Rightarrow> u8 list \<Rightarrow> u8 list" where
  "gray3 lib (b # g # r # xs) = luma lib b g r # gray3 lib xs"
| "gray3 lib xs = []"

fun gray4 :: "libs \<Rightarrow> u8 list \<Rightarrow> u8 list" where
  "gray4 lib (b # g # r # a # xs) = luma lib b g r # gray4 lib xs"
| "gray4 lib xs = []"

definition cvtColor_gray :: "libs \<Rightarrow> ndarray \<Rightarrow> error + ndarray" where
  "cvtColor_gray lib a =
     (case shape a of
        [h, w, c] \<Rightarrow>
          if h = 0 \<or> w = 0 then Inl cv2_error
          else if c = 3 then Inr \<lparr>shape = [h, w], data = gray3 lib (data a)\<rparr>
          else if c = 4 then Inr \<lparr>shape = [h, w], data = gray4 lib (data a)\<rparr>
          else Inl cv2_error
      | _ \<Rightarrow> Inl cv2_error)"

definition zeros_like :: "ndarray \<Rightarrow> ndarray" where
  "zeros_like a = \<lparr>shape = shape a, data = replicate (prod_list (shape a)) 0\<rparr>"

text \<open>
  The shape numpy uses for the right-hand side of an assignment into a two-axis region:
  axes in front of the last two must have length one and are dropped, missing axes count as
  length one. \<open>None\<close> when an axis in front is longer than one.
\<close>

definition value_shape2 :: "nat list \<Rightarrow> (nat \<times> nat) option" where
  "value_shape2 ms =
     (let front = take (length ms - 2) ms; back = drop (length ms - 2) ms in
      if \<exists>n \<in> set front. n \<noteq> 1 then None
      else case back of
             [] \<Rightarrow> Some (1, 1)
           | [w] \<Rightarrow> Some (1, w)
           | h # w # _ \<Rightarrow> Some (h, w))"

text \<open>
  numpy's broadcasting rule for that assignment: each axis of the value has the length of
  the target axis or length one.
\<close>

definition broadcastable :: "nat list \<Rightarrow> nat \<Rightarrow> nat \<Rightarrow> bool" where
  "broadcastable ms h w =
     (case value_shape2 ms of
        None \<Rightarrow> False
      | Some (mh, mw) \<Rightarrow> (mh = h \<or> mh = 1) \<and> (mw = w \<or> mw = 1))"

text \<open>
  \<^verbatim>\<open>mask_colored[:, :, 1] = mask\<close> on an array of three axes: IndexError when the third
  axis has no index 1, ValueError when the mask cannot be broadcast to (H, W); an axis of
  length one of the mask is repeated along the target axis. An array with fewer than three
  axes raises IndexError. Arrays with more than three axes are not images of this backend
  and are not modelled: the model answers with an error for them.
\<close>

definition setitem_channel1 :: "ndarray \<Rightarrow> ndarray \<Rightarrow> error + ndarray" where
  "setitem_channel1 target msk =
     (case shape target of
        [h, w, c] \<Rightarrow>
          if c \<le> 1 then Inl IndexError
          else if \<not> broadcastable (shape msk) h w then Inl ValueError
          else
            (let (mh, mw) = the (value_shape2 (shape msk)) in
             Inr \<lparr>shape = [h, w, c],
                  data = map (\<lambda>n.
                    if n mod c = 1
                    then data msk ! ((if mh = 1 then 0 else n div (c * w)) * mw
                                      + (if mw = 1 then 0 else (n div c) mod w))
                    else data target ! n) [0..<h * w * c]\<rparr>)
      | [] \<Rightarrow> Inl IndexError
      | [h] \<Rightarrow> Inl IndexError
      | [h, w] \<Rightarrow> Inl IndexError
      | _ \<Rightarrow> Inl cv2_error)"

text \<open>
  \<^verbatim>\<open>cv2.addWeighted(a, alpha, b, beta, gamma)\<close> on arrays of one shape: each sample of the
  result is computed from the two samples at its place. For empty arrays the binding
  returns \<^verbatim>\<open>None\<close> and raises nothing.
\<close>

definition addWeighted ::
  "libs \<Rightarrow> ndarray \<Rightarrow> real \<Rightarrow> ndarray \<Rightarrow> real \<Rightarrow> real \<Rightarrow> error + ndarray option" where
  "addWeighted lib a alpha b beta gamma =
     (if shape a \<noteq> shape b then Inl cv2_error
      else if prod_list (shape a) = 0 then Inr None
      else Inr (Some \<lparr>shape = shape a,
                      data = map (\<lambda>(x, y). weighted lib alpha beta gamma x y)
                               (zip (data a) (data b))\<rparr>))"

text \<open>
  \<^verbatim>\<open>overlay_mask\<close>; the result is \<open>None\<close> when \<^verbatim>\<open>cv2.addWeighted\<close> returned \<^verbatim>\<open>None\<close>.
  The first weight is \<^verbatim>\<open>1 - alpha\<close>.
\<close>

definition overlay_mask ::
  "libs \<Rightarrow> ndarray \<Rightarrow> ndarray \<Rightarrow> real \<Rightarrow> error + ndarray option" where
  "overlay_mask lib img msk alpha =
     and_then (if length (shape msk) = 3 then cvtColor_gray lib msk else Inr msk) (\<lambda>mask1.
     and_then (setitem_channel1 (zeros_like img) mask1) (\<lambda>mask_colored.
       addWeighted lib img (1 - alpha) mask_colored alpha 0))"

text \<open>
  The single-channel samples of a mask as the overlay uses them: the mask's own when it
  has two axes, its gray values when it has three.
\<close>

definition mask_samples :: "libs \<Rightarrow> ndarray \<Rightarrow> u8 list" where
  "mask_samples lib msk =
     (case shape msk of
        [h, w, c] \<Rightarrow> if c = 3 then gray3 lib (data msk) else gray4 lib (data msk)
      | _ \<Rightarrow> data msk)"

subsection \<open>The frame pipeline\<close>

text \<open>
  The values of the result dictionary, and the dictionary as the list of its items.
  \<open>getitem\<close> is \<^verbatim>\<open>d[k]\<close>.
\<close>

datatype pyval = Array ndarray | Float real

type_synonym dict = "(string \<times> pyval) list"

definition getitem :: "dict \<Rightarrow> string \<Rightarrow> error + pyval" where
  "getitem d k = (case map_of d k of None \<Rightarrow> Inl KeyError | Some v \<Rightarrow> Inr v)"

text \<open>
  \<^verbatim>\<open>process_image\<close>; \<open>t0\<close> and \<open>t1\<close> are the two readings of \<^verbatim>\<open>time.time()\<close>. Every
  exception of a stage is logged and raised again, so it is the exception of the call.
  After the overlay stage the log line reads \<^verbatim>\<open>overlay.shape\<close>, which raises
  AttributeError on \<^verbatim>\<open>None\<close>.
\<close>

definition call_model :: "model_service \<Rightarrow> tensor \<Rightarrow> error + tensor" where
  "call_model self t = (case model self of None \<Rightarrow> Inl TypeError | Some net \<Rightarrow> net t)"

definition process_image ::
  "libs \<Rightarrow> model_service \<Rightarrow> real \<Rightarrow> real \<Rightarrow> ndarray \<Rightarrow> error + dict" where
  "process_image lib self t0 t1 img =
     (let original_shape = shape img in
      and_then (preprocess_image lib self img) (\<lambda>input_tensor.
      and_then (call_model self input_tensor) (\<lambda>output.
      and_then (postprocess_output lib output original_shape) (\<lambda>mask.
      and_then (overlay_mask lib img mask (1 / 2)) (\<lambda>overlay.
        case overlay of
          None \<Rightarrow> Inl AttributeError
        | Some ov \<Rightarrow>
            Inr [(''mask'', Array mask),
                 (''overlay'', Array ov),
                 (''processing_time'', Float (t1 - t0))])))))"

section \<open>main.py\<close>

text \<open>
  JSON values as Python has them after \<^verbatim>\<open>json.loads\<close> and before \<^verbatim>\<open>json.dumps\<close>; an
  object is the list of its items.
\<close>

datatype json =
    JNull
  | JBool bool
  | JInt int
  | JFloat real
  | JStr string
  | JArr "json list"
  | JObj "(string \<times> json) list"

text \<open>Python's truth value of such a value (\<^verbatim>\<open>if not image_data\<close>).\<close>

fun truthy :: "json \<Rightarrow> bool" where
  "truthy JNull = False"
| "truthy (JBool b) = b"
| "truthy (JInt n) = (n \<noteq> 0)"
| "truthy (JFloat x) = (x \<noteq> 0)"
| "truthy (JStr s) = (s \<noteq> [])"
| "truthy (JArr xs) = (xs \<noteq> [])"
| "truthy (JObj kvs) = (kvs \<noteq> [])"

text \<open>
  \<^verbatim>\<open>frame_data.get(key)\<close>: only a dict has the method; on any other value the attribute
  lookup raises AttributeError. A missing key gives \<^verbatim>\<open>None\<close>.
\<close>

fun dict_get :: "json \<Rightarrow> string \<Rightarrow> error + json" where
  "dict_get (JObj kvs) k = Inr (case map_of kvs k of None \<Rightarrow> JNull | Some v \<Rightarrow> v)"
| "dict_get v k = Inl AttributeError"

definition startswith :: "string \<Rightarrow> string \<Rightarrow> bool" where
  "startswith s p \<longleftrightarrow> take (length p) s = p"

text \<open>\<^verbatim>\<open>s.split(c)\<close>: the pieces between the occurrences of the separator.\<close>

fun split_on :: "char \<Rightarrow> string \<Rightarrow> string list" where
  "split_on c [] = [[]]"
| "split_on c (x # xs) =
     (let r = split_on c xs in
      if x = c then [] # r else (x # hd r) # tl r)"

text \<open>
  \<^verbatim>\<open>str(e)\<close>: the text of a library exception is the library's; the model prints the
  name of the exception class in its place.
\<close>

fun str_of :: "error \<Rightarrow> string" where
  "str_of TypeError = ''TypeError''"
| "str_of ValueError = ''ValueError''"
| "str_of IndexError = ''IndexError''"
| "str_of RuntimeError = ''RuntimeError''"
| "str_of RecursionError = ''RecursionError''"
| "str_of AttributeError = ''AttributeError''"
| "str_of KeyError = ''KeyError''"
| "str_of cv2_error = ''cv2.error''"
| "str_of binascii_Error = ''binascii.Error''"
| "str_of UnidentifiedImageError = ''UnidentifiedImageError''"
| "str_of JSONDecodeError = ''JSONDecodeError''"
| "str_of WebSocketDisconnect = ''WebSocketDisconnect''"
| "str_of OtherException = ''Exception''"

text \<open>\<^verbatim>\<open>encode_image_to_base64(result[key])\<close>.\<close>

definition encode_item :: "libs \<Rightarrow> dict \<Rightarrow> string \<Rightarrow> error + string" where
  "encode_item lib result k =
     and_then (getitem result k) (\<lambda>v.
       case v of Array a \<Rightarrow> encode_image_to_base64 lib a | Float x \<Rightarrow> Inl AttributeError)"

definition get_processing_time :: "dict \<Rightarrow> json" where
  "get_processing_time result =
     (case map_of result ''processing_time'' of
        Some (Float x) \<Rightarrow> JFloat x
      | _ \<Rightarrow> JInt 0)"

subsection \<open>Startup and health\<close>

text \<open>
  The module-level \<^verbatim>\<open>model_service\<close> is \<open>None\<close> until \<^verbatim>\<open>startup_event\<close> assigns it.
  The event returns the exception it raises, if any, and the value of the global after it.
\<close>

definition startup_event ::
  "loader \<Rightarrow> model_service option \<Rightarrow> error option \<times> model_service option" where
  "startup_event ld g =
     (case ModelService ld of
        Inl e \<Rightarrow> (Some e, g)
      | Inr svc \<Rightarrow> (None, Some svc))"

definition health_check :: "model_service option \<Rightarrow> (string \<times> json) list" where
  "health_check g =
     [(''status'', JStr ''healthy''),
      (''model_loaded'', JBool (g \<noteq> None \<and> model (the g) \<noteq> None))]"

subsection \<open>The upload endpoint\<close>

text \<open>
  \<^verbatim>\<open>upload_image\<close>: the content type of the upload (\<open>None\<close> when the client sent none), its
  bytes, and the answer as status code and JSON body.
\<close>

definition upload_decode :: "libs \<Rightarrow> u8 list \<Rightarrow> error + ndarray" where
  "upload_decode lib contents =
     and_then (image_open lib contents) (\<lambda>img. Inr (np_array img))"

definition upload_process ::
  "libs \<Rightarrow> model_service \<Rightarrow> real \<Rightarrow> real \<Rightarrow> ndarray \<Rightarrow> error + json" where
  "upload_process lib self t0 t1 image_np =
     and_then (process_image lib self t0 t1 image_np) (\<lambda>result.
     and_then (encode_image_to_base64 lib image_np) (\<lambda>original.
     and_then (encode_item lib result ''mask'') (\<lambda>m.
     and_then (encode_item lib result ''overlay'') (\<lambda>ov.
       Inr (JObj [(''success'', JBool True),
                  (''original_image'', JStr original),
                  (''segmentation_mask'', JStr m),
                  (''overlay'', JStr ov)])))))"

definition error_body :: "string \<Rightarrow> json" where
  "error_body msg = JObj [(''success'', JBool False), (''error'', JStr msg)]"

definition upload_image ::
  "libs \<Rightarrow> model_service option \<Rightarrow> real \<Rightarrow> real \<Rightarrow> string option \<Rightarrow> u8 list \<Rightarrow> nat \<times> json" where
  "upload_image lib g t0 t1 content_type contents =
     (case content_type of
        None \<Rightarrow> (500, error_body (''Unexpected error: '' @ str_of AttributeError))
      | Some ct \<Rightarrow>
          if \<not> startswith ct ''image/'' then (400, error_body ''File must be an image'')
          else
            (case g of
               None \<Rightarrow> (500, error_body ''Model service not available'')
             | Some self \<Rightarrow>
                 (case upload_decode lib contents of
                    Inl e \<Rightarrow> (400, error_body ''Invalid image file'')
                  | Inr image_np \<Rightarrow>
                      (case upload_process lib self t0 t1 image_np of
                         Inl e \<Rightarrow> (500, error_body (''Model processing failed: '' @ str_of e))
                       | Inr body \<Rightarrow> (200, body)))))"

subsection \<open>The streaming endpoint\<close>

text \<open>
  What \<^verbatim>\<open>await websocket.receive_text()\<close> does: it returns a text, or raises
  \<^verbatim>\<open>WebSocketDisconnect\<close>, or raises another exception of the transport. A text is
  represented by what \<^verbatim>\<open>json.loads\<close> makes of it: a JSONDecodeError, a value, or
  another exception (a plain ValueError for an integer literal with too many digits, a
  RecursionError for a document nested too deeply), which the handler of
  \<^verbatim>\<open>json.JSONDecodeError\<close> does not catch.
\<close>

datatype message = NotJSON | JSON json | LoadsError error

datatype incoming = Text message | Disconnect | TransportFailure

datatype conn_state = Open | Closed

record session =
  frame_count :: nat
  sent :: "json list"
  conn :: conn_state

text \<open>The body of the inner \<^verbatim>\<open>try\<close> up to the response dictionary.\<close>

definition strip_data_url :: "json \<Rightarrow> error + string" where
  "strip_data_url image_data =
     (case image_data of
        JStr s \<Rightarrow>
          if startswith s ''data:image''
          then (let parts = split_on (CHR '','') s in
                if length parts < 2 then Inl IndexError else Inr (parts ! 1))
          else Inr s
      | _ \<Rightarrow> Inl AttributeError)"

definition process_frame ::
  "libs \<Rightarrow> model_service option \<Rightarrow> real \<times> real \<Rightarrow> nat \<Rightarrow> json \<Rightarrow> error + json" where
  "process_frame lib g rd n image_data =
     and_then (strip_data_url image_data) (\<lambda>b64.
     and_then (decode_base64_to_image lib b64) (\<lambda>image_np.
     and_then (case g of None \<Rightarrow> Inl AttributeError
               | Some self \<Rightarrow> process_image lib self (fst rd) (snd rd) image_np) (\<lambda>result.
     and_then (encode_item lib result ''mask'') (\<lambda>m.
     and_then (encode_item lib result ''overlay'') (\<lambda>ov.
       Inr (JObj [(''success'', JBool True),
                  (''segmentation_mask'', JStr m),
                  (''overlay'', JStr ov),
                  (''processing_time'', get_processing_time result),
                  (''frame_number'', JInt (int n))]))))))"

text \<open>
  One pass of the \<^verbatim>\<open>while True\<close> body on a received text, after \<open>frame_count\<close> was
  incremented: the response that is sent, or the exception that leaves the loop. Sending
  is taken to succeed; a failing send is an exception of the transport.
\<close>

definition handle_text ::
  "libs \<Rightarrow> model_service option \<Rightarrow> real \<times> real \<Rightarrow> nat \<Rightarrow> message \<Rightarrow> error + json" where
  "handle_text lib g rd n m =
     (case m of
        NotJSON \<Rightarrow> Inr (error_body ''Invalid JSON data'')
      | LoadsError e \<Rightarrow> Inl e
      | JSON frame_data \<Rightarrow>
          and_then (dict_get frame_data ''image'') (\<lambda>image_data.
            if \<not> truthy image_data then Inr (error_body ''No image data provided'')
            else case process_frame lib g rd n image_data of
                   Inr response \<Rightarrow> Inr response
                 | Inl e \<Rightarrow>
                     Inr (JObj [(''success'', JBool False),
                                (''error'', JStr (''Processing failed: '' @ str_of e)),
                                (''frame_number'', JInt (int n))])))"

text \<open>
  The receive loop over what the transport delivers. When the list is used up the
  endpoint is waiting in \<^verbatim>\<open>receive_text\<close> and the session is open. \<open>clock n\<close> gives the two
  time readings taken while frame \<open>n\<close> is processed.
\<close>

fun receive_loop ::
  "libs \<Rightarrow> model_service option \<Rightarrow> (nat \<Rightarrow> real \<times> real) \<Rightarrow> incoming list \<Rightarrow> session \<Rightarrow> session" where
  "receive_loop lib g clock [] s = s"
| "receive_loop lib g clock (Disconnect # rest) s = s\<lparr>conn := Closed\<rparr>"
| "receive_loop lib g clock (TransportFailure # rest) s = s\<lparr>conn := Closed\<rparr>"
| "receive_loop lib g clock (Text m # rest) s =
     (let n = frame_count s + 1 in
      case handle_text lib g (clock n) n m of
        Inr response \<Rightarrow>
          receive_loop lib g clock rest (s\<lparr>frame_count := n, sent := sent s @ [response]\<rparr>)
      | Inl e \<Rightarrow> s\<lparr>frame_count := n, conn := Closed\<rparr>)"

text \<open>
  \<^verbatim>\<open>websocket_endpoint\<close> with the connection manager's list: the socket is appended on
  connect and removed by both handlers of the outer \<^verbatim>\<open>try\<close>.
\<close>

definition websocket_endpoint ::
  "libs \<Rightarrow> model_service option \<Rightarrow> (nat \<Rightarrow> real \<times> real) \<Rightarrow> 'w list \<Rightarrow> 'w \<Rightarrow> incoming list
     \<Rightarrow> session \<times> 'w list" where
  "websocket_endpoint lib g clock active_connections websocket events =
     (let connected = active_connections @ [websocket];
          s = receive_loop lib g clock events \<lparr>frame_count = 0, sent = [], conn = Open\<rparr>
      in (s, if conn s = Closed then remove1 websocket connected else connected))"

text \<open>
  The texts the loop answers without leaving: those that are not JSON, and JSON objects.
\<close>

definition object_frame :: "incoming \<Rightarrow> bool" where
  "object_frame ev \<longleftrightarrow> ev = Text NotJSON \<or> (\<exists>kvs. ev = Text (JSON (JObj kvs)))"

section \<open>Concrete libraries for evaluation\<close>

text \<open>
  To evaluate the model on concrete inputs the library parameters need values. The
  stand-ins below are lossless codecs of the simplest kind (not PNG and not base64),
  resampling kernels that fill the result with zeros (for a PIL image) or with the first
  sample of the source (for an array), the weighted sum in exact arithmetic, rounded to
  the nearest integer (a tie goes to the even one) and saturated to 0..255, and a sigmoid
  that is exact below the score 20 and 1 from there on. The network answers every input
  with a score map of zeros. No general theorem depends on them.
\<close>

definition sigmoid :: "real \<Rightarrow> real" where
  "sigmoid x = 1 / (1 + exp (- x))"

definition round_half_even :: "real \<Rightarrow> int" where
  "round_half_even x =
     (let f = \<lfloor>x\<rfloor>; d = x - of_int f in
      if d < 1 / 2 then f
      else if 1 / 2 < d then f + 1
      else if even f then f else f + 1)"

definition saturate_u8 :: "int \<Rightarrow> u8" where
  "saturate_u8 n = word_of_int (max 0 (min 255 n))"

definition blend :: "real \<Rightarrow> real \<Rightarrow> real \<Rightarrow> u8 \<Rightarrow> u8 \<Rightarrow> u8" where
  "blend alpha beta gamma a b =
     saturate_u8 (round_half_even (real (unat a) * alpha + real (unat b) * beta + gamma))"

fun mode_code :: "pil_mode \<Rightarrow> u8" where
  "mode_code L = 2"
| "mode_code LA = 3"
| "mode_code RGB = 4"
| "mode_code RGBA = 5"

definition code_mode :: "u8 \<Rightarrow> pil_mode option" where
  "code_mode b =
     (if b = 2 then Some L else if b = 3 then Some LA
      else if b = 4 then Some RGB else if b = 5 then Some RGBA else None)"

definition stub_save :: "pil_image \<Rightarrow> u8 list" where
  "stub_save p =
     mode_code (mode p) # replicate (width p) 1 @ 0 # replicate (height p) 1 @ 0 # pixels p"

definition stub_open :: "u8 list \<Rightarrow> error + pil_image" where
  "stub_open bs =
     (case bs of
        [] \<Rightarrow> Inl UnidentifiedImageError
      | b # rest \<Rightarrow>
          (case code_mode b of
             None \<Rightarrow> Inl UnidentifiedImageError
           | Some m \<Rightarrow>
               (let w = length (takeWhile (\<lambda>x. x = 1) rest);
                    rest1 = drop (Suc w) rest;
                    h = length (takeWhile (\<lambda>x. x = 1) rest1)
                in Inr \<lparr>mode = m, width = w, height = h, pixels = drop (Suc h) rest1\<rparr>)))"

definition stub_b64encode :: "u8 list \<Rightarrow> string" where
  "stub_b64encode bs = map (\<lambda>b. char_of (unat b)) bs"

definition stub_b64decode :: "string \<Rightarrow> error + u8 list" where
  "stub_b64decode s = Inr (map (\<lambda>c. of_char c) s)"

definition stub_libs :: libs where
  "stub_libs =
     \<lparr>png_save = stub_save,
      image_open = stub_open,
      b64encode = stub_b64encode,
      b64decode = stub_b64decode,
      pil_resample = (\<lambda>h w p. replicate (h * w * bands (mode p)) 0),
      cv2_resample = (\<lambda>h w a. replicate (h * w) (if data a = [] then 0 else hd (data a))),
      luma = (\<lambda>b g r. g),
      weighted = blend,
      torch_sigmoid = (\<lambda>s. if 20 \<le> s then 1 else sigmoid s),
      float32 = (\<lambda>x. x)\<rparr>"

definition stub_net :: network where
  "stub_net t = Inr \<lparr>tshape = [1, 1, 560, 690], tdata = replicate (560 * 690) 0\<rparr>"

definition stub_loader :: loader where
  "stub_loader = \<lparr>new_unet = Inr stub_net, checkpoint_exists = False, load_checkpoint = Inr\<rparr>"

definition stub_service :: model_service where
  "stub_service = \<lparr>model = Some stub_net, image_height = 560, image_width = 690\<rparr>"

section \<open>The codec adapter\<close>

lemma b64_byte: "of_char (char_of (unat b)) = (b::u8)"
proof -
  have "(of_char (char_of (unat b)) :: u8) = of_nat (of_char (char_of (unat b)))"
    by (simp only: of_nat_of_char)
  also have "\<dots> = of_nat (unat b mod 256)"
    by (simp only: of_char_of)
  also have "\<dots> = b"
    using unsigned_less [of b, where ?'a = nat] by simp
  finally show ?thesis .
qed

lemma stub_lossless: "lossless stub_libs"
  unfolding lossless_def stub_libs_def
  apply (simp add: stub_open_def stub_save_def stub_b64decode_def stub_b64encode_def)
  apply (intro conjI allI)
  subgoal for p by (cases "mode p") (simp_all add: code_mode_def takeWhile_append)
  subgoal for b by (simp add: map_idI b64_byte)
  done

text \<open>Exchanging the outer samples of every pixel twice gives the samples back.\<close>

lemma swap_rb3_involution: "length xs mod 3 = 0 \<Longrightarrow> swap_rb3 (swap_rb3 xs) = xs"
proof (induction xs rule: swap_rb3.induct)
  case (1 a b c xs)
  have "length (a # b # c # xs) = length xs + 3" by simp
  with "1.prems" have "length xs mod 3 = 0" by (metis mod_add_self2)
  with "1.IH" show ?case by simp
qed simp_all

lemma color_roundtrip:
  assumes "lossless lib" "color_image img"
  shows "\<exists>s. encode_image_to_base64 lib img = Inr s \<and> decode_base64_to_image lib s = Inr img"
proof -
  from assms(2) obtain h w where sh: "shape img = [h, w, 3]" and pos: "0 < h" "0 < w"
    and len: "length (data img) = h * w * 3"
    by (auto simp: color_image_def well_formed_def)
  have m: "length (data img) mod 3 = 0" using len by simp
  from assms(1) have o: "\<And>p. image_open lib (png_save lib p) = Inr p"
    and b: "\<And>x. b64decode lib (b64encode lib x) = Inr x" by (auto simp: lossless_def)
  have "img = \<lparr>shape = [h, w, 3], data = data img\<rparr>" using sh by (cases img) simp
  then show ?thesis using pos m sh
    by (simp add: encode_image_to_base64_def decode_base64_to_image_def and_then_def
        cvtColor_swap_def fromarray_def np_array_def o b swap_rb3_involution)
qed

lemma gray_roundtrip:
  assumes "lossless lib" "gray_image img"
  shows "\<exists>s. encode_image_to_base64 lib img = Inr s \<and> decode_base64_to_image lib s = Inr img"
proof -
  from assms(2) obtain h w where sh: "shape img = [h, w]"
    by (auto simp: gray_image_def)
  from assms(1) have o: "\<And>p. image_open lib (png_save lib p) = Inr p"
    and b: "\<And>x. b64decode lib (b64encode lib x) = Inr x" by (auto simp: lossless_def)
  have "img = \<lparr>shape = [h, w], data = data img\<rparr>" using sh by (cases img) simp
  then show ?thesis using sh
    by (simp add: encode_image_to_base64_def decode_base64_to_image_def and_then_def
        fromarray_def np_array_def o b)
qed

text \<open>
  Claim C10. With a lossless PNG and base64 codec, encoding a non-empty uint8 image that
  has two axes, or three axes and three channels, succeeds, and decoding the string gives
  an array equal to the image: the exchange of the first and third channel on encoding is
  undone by the one on decoding.
\<close>

theorem codec_round_trip:
  assumes "lossless lib" "gray_image img \<or> color_image img"
  shows "\<exists>s. encode_image_to_base64 lib img = Inr s \<and> decode_base64_to_image lib s = Inr img"
  using assms color_roundtrip gray_roundtrip by blast

theorem codec_round_trip_witness:
  "lossless stub_libs \<and> color_image \<lparr>shape = [1, 2, 3], data = [10, 20, 30, 40, 50, 60]\<rparr> \<and>
   (\<exists>s. encode_image_to_base64 stub_libs \<lparr>shape = [1, 2, 3], data = [10, 20, 30, 40, 50, 60]\<rparr> = Inr s \<and>
        decode_base64_to_image stub_libs s = Inr \<lparr>shape = [1, 2, 3], data = [10, 20, 30, 40, 50, 60]\<rparr>)"
proof -
  have c: "color_image \<lparr>shape = [1, 2, 3], data = [10, 20, 30, 40, 50, 60]\<rparr>"
    by (simp add: color_image_def well_formed_def)
  show ?thesis
    using codec_round_trip [OF stub_lossless disjI2, OF c] stub_lossless c by simp
qed

section \<open>The preprocessor\<close>

lemma ModelService_size:
  "ModelService ld = Inr self \<Longrightarrow> image_height self = 560 \<and> image_width self = 690 \<and> model self \<noteq> None"
  by (auto simp: ModelService_def load_model_def and_then_def split: sum.splits if_splits)

lemma stub_ModelService: "ModelService stub_loader = Inr stub_service"
  by (simp add: ModelService_def load_model_def and_then_def stub_loader_def stub_service_def)

lemma preprocess_color:
  assumes "ModelService ld = Inr self" "shape img = [h, w, 3]" "0 < h" "0 < w"
  shows "\<exists>t. preprocess_image lib self img = Inr t \<and> tshape t = [1, 3, 560, 690]"
  using assms(2-) ModelService_size [OF assms(1)]
  by (simp add: preprocess_image_def and_then_def cvtColor_swap_def fromarray_def transform_def
      Normalize_def ToTensor_def Resize_def unsqueeze0_def)

text \<open>
  An array of two axes becomes an image of mode L and a tensor of one channel, which the
  three-channel normalisation refuses.
\<close>

lemma preprocess_gray: "shape img = [h, w] \<Longrightarrow> preprocess_image lib self img = Inl RuntimeError"
  by (simp add: preprocess_image_def and_then_def fromarray_def transform_def
      Normalize_def ToTensor_def Resize_def unsqueeze0_def)




section \<open>The postprocessor\<close>

lemma stub_float_model: "float_model stub_libs"
  by (simp add: float_model_def stub_libs_def sigmoid_def add_pos_pos)

text \<open>
  Claim C5, as the code has it. The probability is a float between 0 and 1, both ends
  included, and so is its float product with 255 between 0 and 255; the mask value is the
  integer part of that product: the cast drops the fraction, it does not round, and the
  value needs no clipping and does not wrap.
\<close>

theorem mask_value_truncates:
  assumes "float_model lib"
  shows "int (unat (mask_value lib s)) = \<lfloor>float32 lib (torch_sigmoid lib s * 255)\<rfloor> \<and>
         0 \<le> float32 lib (torch_sigmoid lib s * 255) \<and>
         float32 lib (torch_sigmoid lib s * 255) \<le> 255"
proof -
  let ?x = "float32 lib (torch_sigmoid lib s * 255)"
  from assms have p: "0 \<le> torch_sigmoid lib s" "torch_sigmoid lib s \<le> 1"
    and mono: "\<And>x y. x \<le> y \<Longrightarrow> float32 lib x \<le> float32 lib y"
    and z: "float32 lib 0 = 0" and t: "float32 lib 255 = 255"
    by (auto simp: float_model_def)
  from p have "0 \<le> torch_sigmoid lib s * 255" "torch_sigmoid lib s * 255 \<le> 255"
    by simp_all
  from mono [OF this(1)] mono [OF this(2)] have r: "0 \<le> ?x" "?x \<le> 255"
    by (simp_all add: z t)
  then have f: "0 \<le> \<lfloor>?x\<rfloor>" "\<lfloor>?x\<rfloor> \<le> 255"
    by (simp_all add: floor_le_iff)
  have "uint (word_of_int \<lfloor>?x\<rfloor> :: u8) = \<lfloor>?x\<rfloor> mod 256"
    by (simp add: uint_word_of_int)
  also have "\<dots> = \<lfloor>?x\<rfloor>"
    using f by simp
  finally have "int (unat (mask_value lib s)) = \<lfloor>?x\<rfloor>"
    using r by (simp add: mask_value_def astype_uint8_def trunc_def)
  with r show ?thesis by simp
qed

text \<open>At the score 20 the float probability is 1.0 and the mask value is 255.\<close>

theorem mask_value_truncates_witness:
  "float_model stub_libs \<and> int (unat (mask_value stub_libs 20)) = 255"
proof -
  have "float32 stub_libs (torch_sigmoid stub_libs 20 * 255) = 255"
    by (simp add: stub_libs_def)
  with mask_value_truncates [OF stub_float_model, of 20] stub_float_model
  show ?thesis by simp
qed

text \<open>
  Claim C5 as stated fails at the score 0: the sigmoid is 1/2, 255 times it is 127.5,
  rounding to nearest gives 128, and the mask holds 127.
\<close>

lemma stub_mask_value_0: "mask_value stub_libs 0 = 127"
  by (simp add: mask_value_def stub_libs_def sigmoid_def astype_uint8_def trunc_def)

theorem mask_value_round_counterexample:
  "unat (mask_value stub_libs 0) = 127 \<and>
   round (float32 stub_libs (torch_sigmoid stub_libs 0 * 255)) = 128"
  by (simp add: stub_mask_value_0) (simp add: stub_libs_def sigmoid_def round_def)

text \<open>
  Claim C8. For a score map of shape (1, 1, 560, 690) and an original shape (H, W, ...)
  with H and W positive, postprocessing succeeds and the mask has shape (H, W); when the
  original is 560 x 690 the mask is the converted score map itself, not resized.
\<close>

theorem postprocess_output_shape:
  assumes "tshape output = [1, 1, 560, 690]" "original_shape = H # W # rest" "0 < H" "0 < W"
  shows "\<exists>m. postprocess_output lib output original_shape = Inr m \<and> shape m = [H, W] \<and>
           (H = 560 \<and> W = 690 \<longrightarrow> data m = map (mask_value lib) (tdata output))"
  using assms
  by (auto simp: postprocess_output_def squeeze_def cv2_resize_def Let_def)

theorem postprocess_output_shape_witness:
  "(\<exists>m. postprocess_output stub_libs \<lparr>tshape = [1, 1, 560, 690], tdata = replicate (560 * 690) 0\<rparr> [2, 3, 3] = Inr m
        \<and> shape m = [2, 3]) \<and>
   (\<exists>m. postprocess_output stub_libs \<lparr>tshape = [1, 1, 560, 690], tdata = replicate (560 * 690) 0\<rparr> [560, 690, 3] = Inr m
        \<and> shape m = [560, 690] \<and> data m = replicate (560 * 690) 127)"
proof -
  note m = stub_mask_value_0
  show ?thesis
    using postprocess_output_shape [of "\<lparr>tshape = [1, 1, 560, 690], tdata = replicate (560 * 690) 0\<rparr>"
        "[2, 3, 3]" 2 3 "[3]" stub_libs]
      postprocess_output_shape [of "\<lparr>tshape = [1, 1, 560, 690], tdata = replicate (560 * 690) 0\<rparr>"
        "[560, 690, 3]" 560 690 "[3]" stub_libs]
    by (simp add: m)
qed

section \<open>The overlay compositor\<close>

text \<open>The place of the sample (i, j, k) of an array of shape (H, W, C) in C order.\<close>

lemma flat_index:
  assumes "i < H" "j < W" "k < (C::nat)"
  shows "(i * W + j) * C + k < H * W * C"
    and "((i * W + j) * C + k) mod C = k"
    and "((i * W + j) * C + k) div (C * W) = i"
    and "((i * W + j) * C + k) div C mod W = j"
proof -
  from assms have "i * W + j < i * W + W" by simp
  also have "\<dots> = Suc i * W" by simp
  also from assms have "\<dots> \<le> H * W" by (intro mult_le_mono1) simp
  finally have a: "i * W + j < H * W" .
  then have "Suc (i * W + j) \<le> H * W" by simp
  then have "Suc (i * W + j) * C \<le> H * W * C" by (rule mult_le_mono1)
  with assms show "(i * W + j) * C + k < H * W * C" by simp
  from assms show "((i * W + j) * C + k) mod C = k" by simp
  from assms have d: "((i * W + j) * C + k) div C = i * W + j" by simp
  from assms show "((i * W + j) * C + k) div C mod W = j" by (simp add: d)
  have "((i * W + j) * C + k) div (C * W) = ((i * W + j) * C + k) div C div W"
    by (simp add: div_mult2_eq)
  also from assms have "\<dots> = i" by (simp add: d)
  finally show "((i * W + j) * C + k) div (C * W) = i" .
qed

lemma mask_plane:
  assumes "shape msk = [h, w] \<or> (\<exists>c. shape msk = [h, w, c] \<and> (c = 3 \<or> c = 4) \<and> 0 < h \<and> 0 < w)"
  shows "(if length (shape msk) = 3 then cvtColor_gray lib msk else Inr msk) = Inr m1 \<Longrightarrow>
           shape m1 = [h, w] \<and> data m1 = mask_samples lib msk"
    and "\<exists>m1. (if length (shape msk) = 3 then cvtColor_gray lib msk else Inr msk) = Inr m1"
  using assms by (auto simp: cvtColor_gray_def mask_samples_def)

lemma overlay_on_plane:
  assumes "shape img = [H, W, C]" "2 \<le> C" "0 < H" "0 < W" "well_formed img"
    and "shape m1 = [h, w]"
  shows "if (h = H \<or> h = 1) \<and> (w = W \<or> w = 1)
         then \<exists>ov. (and_then (setitem_channel1 (zeros_like img) m1) (\<lambda>mask_colored.
                       addWeighted lib img (1 - alpha) mask_colored alpha 0)) = Inr (Some ov) \<and>
              shape ov = [H, W, C] \<and>
              (\<forall>i<H. \<forall>j<W. \<forall>k<C. data ov ! ((i * W + j) * C + k) =
                  weighted lib (1 - alpha) alpha 0 (data img ! ((i * W + j) * C + k))
                    (if k = 1 then data m1 ! ((if h = 1 then 0 else i) * w + (if w = 1 then 0 else j))
                     else 0))
         else (and_then (setitem_channel1 (zeros_like img) m1) (\<lambda>mask_colored.
                       addWeighted lib img (1 - alpha) mask_colored alpha 0)) = Inl ValueError"
proof (cases "(h = H \<or> h = 1) \<and> (w = W \<or> w = 1)")
  case False
  with assms show ?thesis
    by (auto simp: and_then_def setitem_channel1_def zeros_like_def broadcastable_def
        value_shape2_def Let_def)
next
  case True
  let ?col = "map (\<lambda>n. if n mod C = 1
                    then data m1 ! ((if h = 1 then 0 else n div (C * W)) * w
                                      + (if w = 1 then 0 else (n div C) mod W))
                    else replicate (H * W * C) 0 ! n) [0..<H * W * C]"
  from assms have len: "length (data img) = H * W * C"
    by (simp add: well_formed_def)
  from assms True have s: "setitem_channel1 (zeros_like img) m1 = Inr \<lparr>shape = [H, W, C], data = ?col\<rparr>"
    by (auto simp: setitem_channel1_def zeros_like_def broadcastable_def value_shape2_def Let_def)
  from assms have ne: "H * W * C \<noteq> 0" by simp
  let ?ov = "\<lparr>shape = [H, W, C],
              data = map (\<lambda>(x, y). weighted lib (1 - alpha) alpha 0 x y) (zip (data img) ?col)\<rparr>"
  have r: "(and_then (setitem_channel1 (zeros_like img) m1) (\<lambda>mask_colored.
             addWeighted lib img (1 - alpha) mask_colored alpha 0)) = Inr (Some ?ov)"
    using assms(1) ne by (simp add: s and_then_def addWeighted_def)
  have "data ?ov ! ((i * W + j) * C + k) =
          weighted lib (1 - alpha) alpha 0 (data img ! ((i * W + j) * C + k))
            (if k = 1 then data m1 ! ((if h = 1 then 0 else i) * w + (if w = 1 then 0 else j))
             else 0)"
    if "i < H" "j < W" "k < C" for i j k
  proof -
    define n where "n = (i * W + j) * C + k"
    from flat_index [OF that] have n: "n < H * W * C" "n mod C = k" "n div (C * W) = i"
      "n div C mod W = j"
      unfolding n_def by simp_all
    have c: "?col ! n =
        (if k = 1 then data m1 ! ((if h = 1 then 0 else i) * w + (if w = 1 then 0 else j)) else 0)"
      using n by simp
    have "data ?ov ! n = weighted lib (1 - alpha) alpha 0 (data img ! n) (?col ! n)"
      using n(1) len by simp
    then have "data ?ov ! n = weighted lib (1 - alpha) alpha 0 (data img ! n)
        (if k = 1 then data m1 ! ((if h = 1 then 0 else i) * w + (if w = 1 then 0 else j)) else 0)"
      by (simp only: c)
    then show ?thesis
      unfolding n_def .
  qed
  with r True show ?thesis by simp
qed

text \<open>
  Claim C6, as the code has it. For a non-empty image of at least two channels and a mask
  of spatial dimensions (h, w), with one channel or with three or four that are reduced to
  gray, the overlay raises (numpy's ValueError) exactly when h is neither H nor 1 or w is
  neither W nor 1. Otherwise it succeeds with the shape of the image, nothing is cropped,
  and an axis of the mask of length one is repeated along the axis of the image: the
  sample (i, j, 1) is blended with the mask sample at row i (row 0 when h is 1) and
  column j (column 0 when w is 1), every other sample with 0. An image with fewer than
  three axes or a single channel always raises.
\<close>

theorem overlay_mask_broadcast:
  "(shape img = [H, W, C] \<and> 2 \<le> C \<and> 0 < H \<and> 0 < W \<and> well_formed img \<and>
    (shape msk = [h, w] \<or> (\<exists>c. shape msk = [h, w, c] \<and> (c = 3 \<or> c = 4) \<and> 0 < h \<and> 0 < w)) \<longrightarrow>
      (if (h = H \<or> h = 1) \<and> (w = W \<or> w = 1)
       then \<exists>ov. overlay_mask lib img msk alpha = Inr (Some ov) \<and> shape ov = [H, W, C] \<and>
              (\<forall>i<H. \<forall>j<W. \<forall>k<C. data ov ! ((i * W + j) * C + k) =
                  weighted lib (1 - alpha) alpha 0 (data img ! ((i * W + j) * C + k))
                    (if k = 1
                     then mask_samples lib msk ! ((if h = 1 then 0 else i) * w + (if w = 1 then 0 else j))
                     else 0))
       else overlay_mask lib img msk alpha = Inl ValueError)) \<and>
   ((length (shape img) < 3 \<or> (\<exists>H W C. shape img = [H, W, C] \<and> C \<le> 1)) \<longrightarrow>
      (\<exists>e. overlay_mask lib img msk alpha = Inl e))"
proof (intro conjI impI)
  assume a: "shape img = [H, W, C] \<and> 2 \<le> C \<and> 0 < H \<and> 0 < W \<and> well_formed img \<and>
    (shape msk = [h, w] \<or> (\<exists>c. shape msk = [h, w, c] \<and> (c = 3 \<or> c = 4) \<and> 0 < h \<and> 0 < w))"
  then have m: "shape msk = [h, w] \<or> (\<exists>c. shape msk = [h, w, c] \<and> (c = 3 \<or> c = 4) \<and> 0 < h \<and> 0 < w)"
    by simp
  from mask_plane(2) [OF m, of lib] obtain m1
    where m1: "(if length (shape msk) = 3 then cvtColor_gray lib msk else Inr msk) = Inr m1"
    by blast
  from mask_plane(1) [OF m m1] have p: "shape m1 = [h, w]" "data m1 = mask_samples lib msk"
    by simp_all
  from a have i: "shape img = [H, W, C]" "2 \<le> C" "0 < H" "0 < W" "well_formed img"
    by simp_all
  have o: "overlay_mask lib img msk alpha =
      and_then (setitem_channel1 (zeros_like img) m1) (\<lambda>mask_colored.
        addWeighted lib img (1 - alpha) mask_colored alpha 0)"
    unfolding overlay_mask_def m1 by (simp add: and_then_def)
  from overlay_on_plane [OF i p(1), of lib alpha]
  show "if (h = H \<or> h = 1) \<and> (w = W \<or> w = 1)
       then \<exists>ov. overlay_mask lib img msk alpha = Inr (Some ov) \<and> shape ov = [H, W, C] \<and>
              (\<forall>i<H. \<forall>j<W. \<forall>k<C. data ov ! ((i * W + j) * C + k) =
                  weighted lib (1 - alpha) alpha 0 (data img ! ((i * W + j) * C + k))
                    (if k = 1
                     then mask_samples lib msk ! ((if h = 1 then 0 else i) * w + (if w = 1 then 0 else j))
                     else 0))
       else overlay_mask lib img msk alpha = Inl ValueError"
    unfolding o p(2) .
next
  assume "length (shape img) < 3 \<or> (\<exists>H W C. shape img = [H, W, C] \<and> C \<le> 1)"
  then show "\<exists>e. overlay_mask lib img msk alpha = Inl e"
    by (cases "if length (shape msk) = 3 then cvtColor_gray lib msk else Inr msk")
       (auto simp: overlay_mask_def and_then_def setitem_channel1_def zeros_like_def
          split: list.splits)
qed

theorem overlay_mask_broadcast_witness:
  "overlay_mask stub_libs \<lparr>shape = [2, 2, 3], data = [0, 0, 0, 0, 0, 0, 0, 0, 0, 0, 0, 0]\<rparr>
     \<lparr>shape = [3, 2], data = [1, 2, 3, 4, 5, 6]\<rparr> (1 / 2) = Inl ValueError \<and>
   (\<exists>ov. overlay_mask stub_libs \<lparr>shape = [2, 2, 3], data = [0, 0, 0, 0, 0, 0, 0, 0, 0, 0, 0, 0]\<rparr>
     \<lparr>shape = [2, 2], data = [1, 2, 3, 4]\<rparr> (1 / 2) = Inr (Some ov) \<and> shape ov = [2, 2, 3])"
proof -
  have w: "well_formed \<lparr>shape = [2, 2, 3], data = [0, 0, 0, 0, 0, 0, 0, 0, 0, 0, 0, 0]\<rparr>"
    by (simp add: well_formed_def)
  from overlay_mask_broadcast [of "\<lparr>shape = [2, 2, 3], data = [0, 0, 0, 0, 0, 0, 0, 0, 0, 0, 0, 0]\<rparr>"
      2 2 3 "\<lparr>shape = [3, 2], data = [1, 2, 3, 4, 5, 6]\<rparr>" 3 2 stub_libs "1 / 2"] w
  have a: "overlay_mask stub_libs \<lparr>shape = [2, 2, 3], data = [0, 0, 0, 0, 0, 0, 0, 0, 0, 0, 0, 0]\<rparr>
     \<lparr>shape = [3, 2], data = [1, 2, 3, 4, 5, 6]\<rparr> (1 / 2) = Inl ValueError"
    by simp
  from overlay_mask_broadcast [of "\<lparr>shape = [2, 2, 3], data = [0, 0, 0, 0, 0, 0, 0, 0, 0, 0, 0, 0]\<rparr>"
      2 2 3 "\<lparr>shape = [2, 2], data = [1, 2, 3, 4]\<rparr>" 2 2 stub_libs "1 / 2"] w
  have b: "\<exists>ov. overlay_mask stub_libs \<lparr>shape = [2, 2, 3], data = [0, 0, 0, 0, 0, 0, 0, 0, 0, 0, 0, 0]\<rparr>
     \<lparr>shape = [2, 2], data = [1, 2, 3, 4]\<rparr> (1 / 2) = Inr (Some ov) \<and> shape ov = [2, 2, 3]"
    by auto
  from a b show ?thesis by simp
qed

text \<open>
  Claim C6 as stated fails for a 2 x 2 image and a 1 x 2 mask: the dimensions differ, no
  exception is raised, and the single row of the mask is repeated in both rows of the
  overlay.
\<close>

theorem overlay_mask_mismatch_counterexample:
  "overlay_mask stub_libs \<lparr>shape = [2, 2, 3], data = [0, 0, 0, 0, 0, 0, 0, 0, 0, 0, 0, 0]\<rparr>
     \<lparr>shape = [1, 2], data = [254, 100]\<rparr> (1 / 2)
   = Inr (Some \<lparr>shape = [2, 2, 3], data = [0, 127, 0, 0, 50, 0, 0, 127, 0, 0, 50, 0]\<rparr>)"
  by (simp add: overlay_mask_def and_then_def setitem_channel1_def zeros_like_def
      broadcastable_def value_shape2_def addWeighted_def Let_def upt_rec stub_libs_def
      blend_def round_half_even_def saturate_u8_def)

section \<open>The frame pipeline\<close>

text \<open>
  Preprocessing succeeds only on a non-empty image of three channels, and on such an image
  the overlay stage never returns \<open>None\<close>.
\<close>

lemma preprocess_needs_color:
  "preprocess_image lib self img = Inr t \<Longrightarrow> \<exists>h w. shape img = [h, w, 3] \<and> 0 < h \<and> 0 < w"
  by (auto simp: preprocess_image_def and_then_def cvtColor_swap_def fromarray_def transform_def
      Normalize_def ToTensor_def Resize_def unsqueeze0_def
      split: list.splits if_splits sum.splits)

lemma addWeighted_not_None:
  "prod_list (shape a) \<noteq> 0 \<Longrightarrow> addWeighted lib a alpha b beta gamma \<noteq> Inr None"
  by (auto simp: addWeighted_def)

lemma overlay_not_None:
  assumes "shape img = [h, w, 3]" "0 < h" "0 < w"
  shows "overlay_mask lib img m alpha \<noteq> Inr None"
proof -
  from assms have "prod_list (shape img) \<noteq> 0" by simp
  then show ?thesis
    by (auto simp: overlay_mask_def and_then_def addWeighted_not_None split: sum.splits)
qed

text \<open>
  Claim C7. A call of the pipeline either returns the dictionary with exactly the three
  items mask, overlay and processing time, every stage having succeeded, or raises the
  exception of the first stage that failed; nothing else is returned.
\<close>

theorem process_image_all_or_nothing:
  "(\<exists>t out m ov.
      preprocess_image lib self img = Inr t \<and> call_model self t = Inr out \<and>
      postprocess_output lib out (shape img) = Inr m \<and>
      overlay_mask lib img m (1 / 2) = Inr (Some ov) \<and>
      process_image lib self t0 t1 img =
        Inr [(''mask'', Array m), (''overlay'', Array ov), (''processing_time'', Float (t1 - t0))])
   \<or> (\<exists>e. process_image lib self t0 t1 img = Inl e \<and>
        (preprocess_image lib self img = Inl e \<or>
         (\<exists>t. preprocess_image lib self img = Inr t \<and>
           (call_model self t = Inl e \<or>
            (\<exists>out. call_model self t = Inr out \<and>
              (postprocess_output lib out (shape img) = Inl e \<or>
               (\<exists>m. postprocess_output lib out (shape img) = Inr m \<and>
                    overlay_mask lib img m (1 / 2) = Inl e)))))))"
proof (cases "preprocess_image lib self img")
  case (Inl e)
  then show ?thesis by (simp add: process_image_def and_then_def Let_def)
next
  case (Inr t)
  from preprocess_needs_color [OF Inr] obtain h w
    where "shape img = [h, w, 3]" "0 < h" "0 < w" by blast
  then have n: "overlay_mask lib img m (1 / 2) \<noteq> Inr None" for m
    by (rule overlay_not_None)
  show ?thesis
    using Inr n
    by (auto simp: process_image_def and_then_def Let_def split: sum.splits option.splits)
qed

theorem process_image_all_or_nothing_witness:
  "process_image stub_libs stub_service 0 1 \<lparr>shape = [2, 2], data = [0, 0, 0, 0]\<rparr> = Inl RuntimeError"
proof -
  have g: "preprocess_image stub_libs stub_service \<lparr>shape = [2, 2], data = [0, 0, 0, 0]\<rparr> = Inl RuntimeError"
    by (rule preprocess_gray) simp
  from process_image_all_or_nothing [of stub_libs stub_service "\<lparr>shape = [2, 2], data = [0, 0, 0, 0]\<rparr>" 0 1]
  show ?thesis unfolding g by auto
qed

section \<open>Health\<close>

text \<open>
  Claim C9. The health answer has status healthy; \<open>model_loaded\<close> is false before startup
  and after a startup whose model load raised, and true after a startup that succeeded.
\<close>

theorem health_check_model_loaded:
  "health_check None = [(''status'', JStr ''healthy''), (''model_loaded'', JBool False)] \<and>
   (\<forall>ld e g. startup_event ld None = (Some e, g) \<longrightarrow>
      health_check g = [(''status'', JStr ''healthy''), (''model_loaded'', JBool False)]) \<and>
   (\<forall>ld g. startup_event ld None = (None, g) \<longrightarrow>
      health_check g = [(''status'', JStr ''healthy''), (''model_loaded'', JBool True)])"
  by (auto simp: health_check_def startup_event_def ModelService_def load_model_def and_then_def
      split: sum.splits if_splits)

theorem health_check_model_loaded_witness:
  "startup_event stub_loader None = (None, Some stub_service) \<and>
   health_check (Some stub_service) = [(''status'', JStr ''healthy''), (''model_loaded'', JBool True)] \<and>
   startup_event (stub_loader\<lparr>new_unet := Inl RuntimeError\<rparr>) None = (Some RuntimeError, None) \<and>
   health_check None = [(''status'', JStr ''healthy''), (''model_loaded'', JBool False)]"
proof -
  have a: "startup_event stub_loader None = (None, Some stub_service)"
    by (simp add: startup_event_def stub_ModelService)
  have b: "startup_event (stub_loader\<lparr>new_unet := Inl RuntimeError\<rparr>) None = (Some RuntimeError, None)"
    by (simp add: startup_event_def ModelService_def load_model_def and_then_def)
  from health_check_model_loaded a b show ?thesis by simp
qed

section \<open>Channel order on the two decoding paths\<close>

lemma stub_postprocess:
  "postprocess_output stub_libs \<lparr>tshape = [1, 1, 560, 690], tdata = replicate (560 * 690) 0\<rparr> [1, 1, 3]
     = Inr \<lparr>shape = [1, 1], data = [127]\<rparr>"
  by (simp add: postprocess_output_def squeeze_def cv2_resize_def Let_def stub_mask_value_0)
     (simp add: stub_libs_def)

lemma stub_process_image:
  assumes "shape img = [1, 1, 3]"
  shows "process_image stub_libs stub_service t0 t1 img =
     and_then (overlay_mask stub_libs img \<lparr>shape = [1, 1], data = [127]\<rparr> (1 / 2)) (\<lambda>overlay.
       case overlay of
         None \<Rightarrow> Inl AttributeError
       | Some ov \<Rightarrow>
           Inr [(''mask'', Array \<lparr>shape = [1, 1], data = [127]\<rparr>), (''overlay'', Array ov),
                (''processing_time'', Float (t1 - t0))])"
proof -
  from preprocess_color [OF stub_ModelService assms, of stub_libs]
  obtain t where t: "preprocess_image stub_libs stub_service img = Inr t" by auto
  have c: "call_model stub_service t = Inr \<lparr>tshape = [1, 1, 560, 690], tdata = replicate (560 * 690) 0\<rparr>"
    by (simp add: call_model_def stub_service_def stub_net_def)
  show ?thesis
    unfolding process_image_def Let_def t
    by (simp only: and_then_def sum.case c assms stub_postprocess)
qed

lemma stub_overlay:
  "overlay_mask stub_libs \<lparr>shape = [1, 1, 3], data = [a, b, c]\<rparr> \<lparr>shape = [1, 1], data = [127]\<rparr> (1 / 2)
   = Inr (Some \<lparr>shape = [1, 1, 3],
        data = [blend (1/2) (1/2) 0 a 0, blend (1/2) (1/2) 0 b 127, blend (1/2) (1/2) 0 c 0]\<rparr>)"
  by (simp add: overlay_mask_def and_then_def setitem_channel1_def zeros_like_def
      broadcastable_def value_shape2_def addWeighted_def Let_def upt_rec stub_libs_def)

lemma stub_process_pixel:
  "process_image stub_libs stub_service 0 0 \<lparr>shape = [1, 1, 3], data = [a, b, c]\<rparr> =
     Inr [(''mask'', Array \<lparr>shape = [1, 1], data = [127]\<rparr>),
          (''overlay'', Array \<lparr>shape = [1, 1, 3],
             data = [blend (1/2) (1/2) 0 a 0, blend (1/2) (1/2) 0 b 127, blend (1/2) (1/2) 0 c 0]\<rparr>),
          (''processing_time'', Float 0)]"
proof -
  have s: "shape \<lparr>shape = [1, 1, 3], data = [a, b, c]\<rparr> = [1, 1, 3]" by simp
  show ?thesis
    unfolding stub_process_image [OF s] stub_overlay by (simp add: and_then_def)
qed

lemma blend_values:
  "blend (1/2) (1/2) 0 200 0 = 100" "blend (1/2) (1/2) 0 0 0 = 0" "blend (1/2) (1/2) 0 0 127 = 64"
  by (simp_all add: blend_def round_half_even_def saturate_u8_def Let_def)

text \<open>
  Claim C4, evaluated. The same encoded picture, one red pixel, is decoded by the upload
  path as (200, 0, 0) and by the streaming path as (0, 0, 200); the pipeline exchanges the
  channels of both, so the network sees the picture in different channel orders, and the
  overlays differ: (100, 64, 0) on the upload path, (0, 64, 100) on the streaming path.
\<close>

theorem upload_and_stream_overlays_differ:
  "and_then (upload_decode stub_libs
       (png_save stub_libs \<lparr>mode = RGB, width = 1, height = 1, pixels = [200, 0, 0]\<rparr>))
     (process_image stub_libs stub_service 0 0)
   = Inr [(''mask'', Array \<lparr>shape = [1, 1], data = [127]\<rparr>),
          (''overlay'', Array \<lparr>shape = [1, 1, 3], data = [100, 64, 0]\<rparr>),
          (''processing_time'', Float 0)]
   \<and>
   and_then (decode_base64_to_image stub_libs
       (b64encode stub_libs (png_save stub_libs \<lparr>mode = RGB, width = 1, height = 1, pixels = [200, 0, 0]\<rparr>)))
     (process_image stub_libs stub_service 0 0)
   = Inr [(''mask'', Array \<lparr>shape = [1, 1], data = [127]\<rparr>),
          (''overlay'', Array \<lparr>shape = [1, 1, 3], data = [0, 64, 100]\<rparr>),
          (''processing_time'', Float 0)]"
proof -
  have o: "image_open stub_libs (png_save stub_libs p) = Inr p"
    and b: "b64decode stub_libs (b64encode stub_libs x) = Inr x" for p x
    using stub_lossless by (auto simp: lossless_def)
  have u: "upload_decode stub_libs
       (png_save stub_libs \<lparr>mode = RGB, width = 1, height = 1, pixels = [200, 0, 0]\<rparr>)
     = Inr \<lparr>shape = [1, 1, 3], data = [200, 0, 0]\<rparr>"
    by (simp add: upload_decode_def o np_array_def and_then_def)
  have d: "decode_base64_to_image stub_libs
       (b64encode stub_libs (png_save stub_libs \<lparr>mode = RGB, width = 1, height = 1, pixels = [200, 0, 0]\<rparr>))
     = Inr \<lparr>shape = [1, 1, 3], data = [0, 0, 200]\<rparr>"
    by (simp add: decode_base64_to_image_def o b np_array_def and_then_def cvtColor_swap_def)
  show ?thesis
    unfolding u d by (simp only: and_then_def sum.case stub_process_pixel blend_values simp_thms)
qed

section \<open>The streaming session\<close>

text \<open>
  The exceptions that leave the body of the loop after a text was received are those of
  \<^verbatim>\<open>json.loads\<close> other than JSONDecodeError, and the AttributeError of
  \<^verbatim>\<open>frame_data.get\<close> on a JSON value that is not an object.
\<close>

lemma handle_text_raises:
  "handle_text lib g rd n m = Inl e \<longleftrightarrow>
     m = LoadsError e \<or> (e = AttributeError \<and> (\<exists>v. m = JSON v \<and> (\<forall>kvs. v \<noteq> JObj kvs)))"
proof (cases m)
  case NotJSON
  then show ?thesis by (simp add: handle_text_def)
next
  case (LoadsError x)
  then show ?thesis by (auto simp: handle_text_def)
next
  case (JSON v)
  then show ?thesis
    by (cases v) (auto simp: handle_text_def and_then_def split: sum.splits)
qed

lemma handle_object_frame:
  "object_frame (Text m) \<Longrightarrow> \<exists>r. handle_text lib g rd n m = Inr r"
  using handle_text_raises [of lib g rd n m]
  by (cases "handle_text lib g rd n m") (auto simp: object_frame_def)

text \<open>
  As long as every received text is either not JSON or a JSON object, the session stays
  as it was, every text is counted and every text is answered.
\<close>

lemma object_frames_keep_session_open:
  "list_all object_frame events \<Longrightarrow>
     conn (receive_loop lib g clock events s) = conn s \<and>
     frame_count (receive_loop lib g clock events s) = frame_count s + length events \<and>
     length (sent (receive_loop lib g clock events s)) = length (sent s) + length events"
proof (induction events arbitrary: s)
  case Nil
  then show ?case by simp
next
  case (Cons ev events)
  from Cons.prems have ev: "object_frame ev" and rest: "list_all object_frame events"
    by simp_all
  from ev obtain m where m: "ev = Text m"
    by (auto simp: object_frame_def)
  from handle_object_frame [of m lib g "clock (frame_count s + 1)" "frame_count s + 1"] ev m
  obtain r where r: "handle_text lib g (clock (frame_count s + 1)) (frame_count s + 1) m = Inr r"
    by auto
  show ?case
    using Cons.IH [OF rest, of "s\<lparr>frame_count := frame_count s + 1, sent := sent s @ [r]\<rparr>"] m r
    by (simp add: Let_def)
qed

text \<open>
  Claim C1, evaluated. A first text that is valid JSON but not an object (here the empty
  array) is counted, gets no response, and closes the session: the text after it is never
  received.
\<close>

theorem non_object_json_closes_session:
  "fst (websocket_endpoint lib g clock cs ws [Text (JSON (JArr [])), Text m]) =
     \<lparr>frame_count = 1, sent = [], conn = Closed\<rparr>"
  by (simp add: websocket_endpoint_def handle_text_def and_then_def Let_def)

text \<open>
  Claim C2, evaluated. A text that is not JSON and an object without image data are both
  counted, and both responses carry no frame number.
\<close>

theorem early_error_responses_lack_frame_number:
  "fst (websocket_endpoint lib g clock cs ws [Text NotJSON, Text (JSON (JObj []))]) =
     \<lparr>frame_count = 2,
      sent = [JObj [(''success'', JBool False), (''error'', JStr ''Invalid JSON data'')],
              JObj [(''success'', JBool False), (''error'', JStr ''No image data provided'')]],
      conn = Open\<rparr>"
  by (simp add: websocket_endpoint_def handle_text_def and_then_def Let_def error_body_def)

end
